theory Spec2Isabelle
  imports Main
begin

section \<open>Python values\<close>

text \<open>
  The classes of \<^verbatim>\<open>document.py\<close> declare no field types: a field holds whatever the
  caller passes. Scalar fields are modelled by the values below (\<^verbatim>\<open>None\<close>, booleans,
  unbounded integers and strings); sequence-valued fields (\<^verbatim>\<open>items\<close>, \<^verbatim>\<open>header\<close>,
  \<^verbatim>\<open>rows\<close>, \<^verbatim>\<open>content\<close>) are lists. Floats and user-defined objects are outside the
  model. An object is modelled by the value of its fields, and a tree of elements is
  finite, so a section that contains itself is not represented.
\<close>

datatype pyval = PNone | PBool bool | PInt int | PStr string

datatype pyerr = TypeError | OverflowError

abbreviation nl :: string where
  "nl \<equiv> [CHR 0x0A]"

definition digit_char :: "nat \<Rightarrow> char" where
  "digit_char d = ''0123456789'' ! d"

fun str_nat :: "nat \<Rightarrow> string" where
  "str_nat n = (if n < 10 then [digit_char n] else str_nat (n div 10) @ [digit_char (n mod 10)])"

declare str_nat.simps [simp del]

definition str_int :: "int \<Rightarrow> string" where
  "str_int i = (if i < 0 then CHR ''-'' # str_nat (nat (- i)) else str_nat (nat i))"

text \<open>\<^verbatim>\<open>str(v)\<close>, which is also what an f-string field \<^verbatim>\<open>{v}\<close> interpolates.\<close>

fun py_str :: "pyval \<Rightarrow> string" where
  "py_str PNone = ''None''"
| "py_str (PBool b) = (if b then ''True'' else ''False'')"
| "py_str (PInt i) = str_int i"
| "py_str (PStr s) = s"

text \<open>The truth value of \<^verbatim>\<open>if v:\<close>.\<close>

fun truthy :: "pyval \<Rightarrow> bool" where
  "truthy PNone = False"
| "truthy (PBool b) = b"
| "truthy (PInt i) = (i \<noteq> 0)"
| "truthy (PStr s) = (s \<noteq> [])"

text \<open>\<^verbatim>\<open>sep.join(xs)\<close> on strings.\<close>

fun join_str :: "string \<Rightarrow> string list \<Rightarrow> string" where
  "join_str sep [] = []"
| "join_str sep [x] = x"
| "join_str sep (x # y # ys) = x @ sep @ join_str sep (y # ys)"

text \<open>\<^verbatim>\<open>sep.join(xs)\<close> on arbitrary values: an item that is not a string raises.\<close>

fun strs_of :: "pyval list \<Rightarrow> pyerr + string list" where
  "strs_of [] = Inr []"
| "strs_of (PStr s # vs) = (case strs_of vs of Inl e \<Rightarrow> Inl e | Inr ss \<Rightarrow> Inr (s # ss))"
| "strs_of (v # vs) = Inl TypeError"

definition py_join :: "string \<Rightarrow> pyval list \<Rightarrow> pyerr + string" where
  "py_join sep vs = (case strs_of vs of Inl e \<Rightarrow> Inl e | Inr ss \<Rightarrow> Inr (join_str sep ss))"

text \<open>
  \<^verbatim>\<open>s * n\<close>. The count is first converted to an index, which raises
  \<^verbatim>\<open>OverflowError\<close> for an integer outside the index range (that of a 64-bit build
  here); a count below one then gives the empty string. A boolean counts as 0 or 1, and
  any other right operand raises \<^verbatim>\<open>TypeError\<close>. Memory is not bounded in the model:
  a count inside the index range always yields the repeated string.
\<close>

definition index_min :: int where
  "index_min = - (2 ^ 63)"

definition index_max :: int where
  "index_max = 2 ^ 63 - 1"

fun py_repeat :: "string \<Rightarrow> pyval \<Rightarrow> pyerr + string" where
  "py_repeat s (PInt n) =
     (if n < index_min \<or> index_max < n then Inl OverflowError
      else Inr (concat (replicate (nat n) s)))"
| "py_repeat s (PBool b) = Inr (if b then s else [])"
| "py_repeat s v = Inl TypeError"

section \<open>Document elements\<close>

text \<open>
  One constructor per class, the fields in the order of \<^verbatim>\<open>__init__\<close>:
  \<^verbatim>\<open>Section(title, level)\<close> with its \<^verbatim>\<open>content\<close>, \<^verbatim>\<open>Paragraph(text)\<close>,
  \<^verbatim>\<open>UnorderedList(items)\<close>, \<^verbatim>\<open>OrderedList(items)\<close>, \<^verbatim>\<open>Table(header, rows)\<close>,
  \<^verbatim>\<open>Image(src, alt_text, title, width, height, align)\<close>,
  \<^verbatim>\<open>Blockquote(text, author, source)\<close>, \<^verbatim>\<open>HorizontalLine()\<close>,
  \<^verbatim>\<open>Reference(key, authors, title, publisher, year)\<close> and \<^verbatim>\<open>Document()\<close> with its
  \<^verbatim>\<open>content\<close>.
\<close>

datatype element =
    Section pyval pyval "element list"
  | Paragraph pyval
  | UnorderedList "pyval list"
  | OrderedList "pyval list"
  | Table "pyval list" "pyval list list"
  | Image pyval pyval pyval pyval pyval pyval
  | Blockquote pyval pyval pyval
  | HorizontalLine
  | Reference pyval pyval pyval pyval pyval
  | Document "element list"

text \<open>The list \<^verbatim>\<open>options\<close> that \<^verbatim>\<open>Image.render\<close> fills by four guarded appends.\<close>

definition image_options :: "pyval \<Rightarrow> pyval \<Rightarrow> pyval \<Rightarrow> pyval \<Rightarrow> string list" where
  "image_options title width height align =
     (let options = [];
          options = (if truthy title
                     then options @ [''title='' @ [CHR 0x22] @ py_str title @ [CHR 0x22]]
                     else options);
          options = (if truthy width then options @ [''width='' @ py_str width] else options);
          options = (if truthy height then options @ [''height='' @ py_str height] else options);
          options = (if truthy align then options @ [''align='' @ py_str align] else options)
      in options)"

definition image_render :: "pyval \<Rightarrow> pyval \<Rightarrow> pyval \<Rightarrow> pyval \<Rightarrow> pyval \<Rightarrow> pyval \<Rightarrow> string" where
  "image_render src alt_text title width height align =
     (let options_str = join_str '','' (image_options title width height align);
          image_line = ''image::'' @ py_str src @ ''['' @ py_str alt_text;
          image_line = (if options_str \<noteq> [] then image_line @ '', '' @ options_str
                        else image_line)
      in image_line @ '']'')"

definition table_header_part :: "pyval list \<Rightarrow> pyerr + string" where
  "table_header_part header =
     (if header \<noteq> []
      then (case py_join '' | '' header of
              Inl e \<Rightarrow> Inl e
            | Inr h \<Rightarrow> Inr (''|==='' @ nl @ ''| '' @ h @ nl))
      else Inr (''|==='' @ nl))"

definition table_body :: "pyval list list \<Rightarrow> string" where
  "table_body rows = join_str nl (map (\<lambda>row. ''| '' @ join_str '' | '' (map py_str row)) rows)"

definition blockquote_render :: "pyval \<Rightarrow> pyval \<Rightarrow> pyval \<Rightarrow> string" where
  "blockquote_render text author source =
     (let quote = ''____'' @ nl @ py_str text @ nl @ ''____''
      in if truthy author \<or> truthy source
         then (let attrib_line = ''[quote, '' @ py_str author @ '', '' @ py_str source @ '']''
               in attrib_line @ nl @ quote)
         else quote)"

text \<open>
  \<^verbatim>\<open>render\<close> of every class. \<^verbatim>\<open>Paragraph.render\<close> returns its field as it is, so the
  result is a value; \<^verbatim>\<open>render_items\<close> is the comprehension
  \<^verbatim>\<open>[item.render() for item in self.content]\<close>, which stops at the first child that
  raises.
\<close>

fun render :: "element \<Rightarrow> pyerr + pyval"
  and render_items :: "element list \<Rightarrow> pyerr + pyval list" where
  "render (Section title level content) =
     (case py_repeat ''='' level of
        Inl e \<Rightarrow> Inl e
      | Inr prefix \<Rightarrow>
          (case render_items content of
             Inl e \<Rightarrow> Inl e
           | Inr rs \<Rightarrow>
               (case py_join nl (PStr (prefix @ '' '' @ py_str title) # rs) of
                  Inl e \<Rightarrow> Inl e
                | Inr s \<Rightarrow> Inr (PStr s))))"
| "render (Paragraph text) = Inr text"
| "render (UnorderedList items) =
     Inr (PStr (join_str nl (map (\<lambda>item. ''* '' @ py_str item) items)))"
| "render (OrderedList items) =
     Inr (PStr (join_str nl (map (\<lambda>item. ''. '' @ py_str item) items)))"
| "render (Table header rows) =
     (case table_header_part header of
        Inl e \<Rightarrow> Inl e
      | Inr header_part \<Rightarrow> Inr (PStr (header_part @ table_body rows @ nl @ ''|==='')))"
| "render (Image src alt_text title width height align) =
     Inr (PStr (image_render src alt_text title width height align))"
| "render (Blockquote text author source) = Inr (PStr (blockquote_render text author source))"
| "render HorizontalLine = Inr (PStr ''----'')"
| "render (Reference key authors title publisher year) =
     Inr (PStr (''- [[['' @ py_str key @ '']]] '' @ py_str authors @ ''. '' @ py_str title
                @ ''. '' @ py_str publisher @ ''. '' @ py_str year @ ''.''))"
| "render (Document content) =
     (case render_items content of
        Inl e \<Rightarrow> Inl e
      | Inr rs \<Rightarrow> (case py_join nl rs of Inl e \<Rightarrow> Inl e | Inr s \<Rightarrow> Inr (PStr s)))"
| "render_items [] = Inr []"
| "render_items (item # rest) =
     (case render item of
        Inl e \<Rightarrow> Inl e
      | Inr r \<Rightarrow> (case render_items rest of Inl e \<Rightarrow> Inl e | Inr rs \<Rightarrow> Inr (r # rs)))"


text \<open>
  \<^verbatim>\<open>Document.add_section(title, level=1)\<close>, on the document's \<^verbatim>\<open>content\<close>: the result is the
  new section and the content after the append. An omitted \<^verbatim>\<open>level\<close> is \<open>None\<close> here.
\<close>

definition add_section :: "element list \<Rightarrow> pyval \<Rightarrow> pyval option \<Rightarrow> element \<times> element list" where
  "add_section content title level_arg =
     (let level = (case level_arg of None \<Rightarrow> PInt 1 | Some l \<Rightarrow> l);
          section = Section title level []
      in (section, content @ [section]))"

section \<open>Notions of the specification\<close>

text \<open>
  The lines of a text: the empty text has none, any other text has one more line than it
  has line breaks.
\<close>

fun split_nl :: "string \<Rightarrow> string list" where
  "split_nl [] = [[]]"
| "split_nl (c # cs) =
     (if c = CHR 0x0A then [] # split_nl cs else (c # hd (split_nl cs)) # tl (split_nl cs))"

definition text_lines :: "string \<Rightarrow> string list" where
  "text_lines s = (if s = [] then [] else split_nl s)"

definition render_lines :: "element \<Rightarrow> string list" where
  "render_lines e = (case render e of Inr (PStr s) \<Rightarrow> text_lines s | _ \<Rightarrow> [])"

definition one_line :: "string \<Rightarrow> bool" where
  "one_line s = (CHR 0x0A \<notin> set s)"

text \<open>
  The attribute tokens of an image in the specification's words: of the attributes title,
  width, height and align, in that order, those that are present, each as \<^verbatim>\<open>key=value\<close>,
  the value of the title in double quotes.
\<close>

definition attr_token :: "string \<Rightarrow> pyval \<Rightarrow> string" where
  "attr_token k v =
     (if k = ''title'' then k @ ''='' @ [CHR 0x22] @ py_str v @ [CHR 0x22]
      else k @ ''='' @ py_str v)"

definition spec_image_tokens :: "pyval \<Rightarrow> pyval \<Rightarrow> pyval \<Rightarrow> pyval \<Rightarrow> string list" where
  "spec_image_tokens title width height align =
     map (\<lambda>(k, v). attr_token k v)
       (filter (\<lambda>(k, v). truthy v)
          [(''title'', title), (''width'', width), (''height'', height), (''align'', align)])"




section \<open>Auxiliary facts\<close>

subsection \<open>Decimal digits\<close>

lemma str_nat_digit: "n < 10 \<Longrightarrow> str_nat n = [digit_char n]"
  by (subst str_nat.simps) simp

lemma str_nat_small:
  "str_nat (Suc 0) = ''1''" "str_nat 2 = ''2''" "str_nat 3 = ''3''" "str_nat 5 = ''5''"
  by (simp_all add: str_nat_digit digit_char_def)

lemma str_nat_2020: "str_nat 2020 = ''2020''"
  by code_simp

subsection \<open>Joining and splitting\<close>

lemma strs_of_PStr: "strs_of (map PStr ss) = Inr ss"
  by (induction ss) auto

lemma py_join_PStr: "py_join sep (map PStr ss) = Inr (join_str sep ss)"
  by (simp add: py_join_def strs_of_PStr)

lemma join_str_Cons: "join_str sep (x # xs) = x @ concat (map ((@) sep) xs)"
  by (induction sep xs arbitrary: x rule: join_str.induct) auto

lemma concat_replicate_single: "concat (replicate n [c]) = replicate n c"
  by (induction n) auto

lemma join_str_Nil_iff: "ls \<noteq> [] \<Longrightarrow> hd ls \<noteq> [] \<Longrightarrow> join_str sep ls \<noteq> []"
  by (induction sep ls rule: join_str.induct) auto

lemma one_line_simps:
  "one_line []"
  "one_line (c # s) \<longleftrightarrow> c \<noteq> CHR 0x0A \<and> one_line s"
  "one_line (a @ b) \<longleftrightarrow> one_line a \<and> one_line b"
  by (auto simp: one_line_def)

lemma one_line_join:
  "one_line sep \<Longrightarrow> list_all one_line ls \<Longrightarrow> one_line (join_str sep ls)"
  by (induction sep ls rule: join_str.induct) (auto simp: one_line_def)

lemma split_nl_one_line: "one_line a \<Longrightarrow> split_nl a = [a]"
  by (induction a) (auto simp: one_line_def)

lemma split_nl_append: "one_line a \<Longrightarrow> split_nl (a @ nl @ b) = a # split_nl b"
  by (induction a) (auto simp: one_line_def)

lemma split_nl_join_Cons:
  "list_all one_line (l # ls) \<Longrightarrow> split_nl (join_str nl (l # ls)) = l # ls"
proof (induction ls arbitrary: l)
  case Nil
  then show ?case by (simp add: split_nl_one_line)
next
  case (Cons k ks)
  then have "split_nl (join_str nl (k # ks)) = k # ks" by simp
  with Cons.prems show ?case using split_nl_append[of l "join_str nl (k # ks)"] by simp
qed

lemma split_nl_join:
  "ls \<noteq> [] \<Longrightarrow> list_all one_line ls \<Longrightarrow> split_nl (join_str nl ls) = ls"
  by (cases ls) (simp_all add: split_nl_join_Cons del: join_str.simps)

lemma text_lines_join:
  assumes "list_all one_line ls" and "list_all (\<lambda>l. l \<noteq> []) ls"
  shows "text_lines (join_str nl ls) = ls"
proof (cases ls)
  case Nil
  then show ?thesis by (simp add: text_lines_def)
next
  case (Cons l ls')
  with assms have "join_str nl ls \<noteq> []" by (intro join_str_Nil_iff) auto
  moreover have "split_nl (join_str nl ls) = ls" using Cons assms by (intro split_nl_join) auto
  ultimately show ?thesis by (simp add: text_lines_def)
qed

subsection \<open>Children that render to text\<close>

lemma render_items_texts:
  "list_all2 (\<lambda>c t. render c = Inr (PStr t)) content texts \<Longrightarrow>
   render_items content = Inr (map PStr texts)"
  by (induction content texts rule: list_all2_induct) auto









lemma table_render_texts:
  "hs \<noteq> [] \<Longrightarrow>
   render (Table (map PStr hs) rows) =
     Inr (PStr (''|==='' @ nl @ ''| '' @ join_str '' | '' hs @ nl @ table_body rows @ nl @ ''|===''))"
  by (simp add: table_header_part_def py_join_PStr)

lemma image_options_tokens:
  "image_options title width height align = spec_image_tokens title width height align"
  by (simp add: image_options_def spec_image_tokens_def attr_token_def)

lemma join_tokens_Nil_iff:
  "join_str '','' (spec_image_tokens t w h a) = [] \<longleftrightarrow> spec_image_tokens t w h a = []"
  by (simp add: spec_image_tokens_def attr_token_def)

section \<open>Image\<close>

text \<open>
  C1 (as amended). \<^verbatim>\<open>Image.render\<close> builds \<^verbatim>\<open>image::<src>[<alt_text>\<close>, then the tokens
  \<^verbatim>\<open>key=value\<close> of the attributes whose value is true in a condition, in the fixed order
  title, width, height, align (the title's value in double quotes, the others not). The
  tokens are separated from each other by a single comma with no space; the block of
  tokens follows the alt text after a comma and a space; the line closes with \<^verbatim>\<open>]\<close>.
  With no attribute present the result is exactly \<^verbatim>\<open>image::<src>[<alt_text>]\<close>.
\<close>

theorem image_render_tokens:
  "render (Image src alt t w h a) =
     Inr (PStr (''image::'' @ py_str src @ ''['' @ py_str alt
                @ (if spec_image_tokens t w h a = [] then []
                   else '', '' @ join_str '','' (spec_image_tokens t w h a))
                @ '']''))
   \<and> (\<not> truthy t \<and> \<not> truthy w \<and> \<not> truthy h \<and> \<not> truthy a \<longrightarrow>
        render (Image src alt t w h a) = Inr (PStr (''image::'' @ py_str src @ ''['' @ py_str alt @ '']'')))"
  by (simp add: image_render_def image_options_tokens join_tokens_Nil_iff Let_def)
    (simp add: spec_image_tokens_def)

theorem image_render_tokens_witness:
  \<open>render (Image (PStr ''s'') (PStr ''a'') PNone PNone PNone PNone) = Inr (PStr ''image::s[a]'')
   \<and> render (Image (PStr ''s'') (PStr ''a'') (PStr ''t'') (PInt 5) PNone (PStr ''left''))
       = Inr (PStr ''image::s[a, title="t",width=5,align=left]'')\<close>
  using image_render_tokens [of "PStr ''s''" "PStr ''a''" PNone PNone PNone PNone]
    image_render_tokens [of "PStr ''s''" "PStr ''a''" "PStr ''t''" "PInt 5" PNone "PStr ''left''"]
  by (simp add: spec_image_tokens_def attr_token_def str_int_def str_nat_small)

text \<open>
  With a title and a width the two tokens are joined by a comma alone, not by a comma and
  a space.
\<close>

theorem image_comma_space_counterexample:
  \<open>render (Image (PStr ''s'') (PStr ''a'') (PStr ''t'') (PInt 5) PNone PNone)
     = Inr (PStr ''image::s[a, title="t",width=5]'')
   \<and> render (Image (PStr ''s'') (PStr ''a'') (PStr ''t'') (PInt 5) PNone PNone)
     \<noteq> Inr (PStr ''image::s[a, title="t", width=5]'')\<close>
  by (simp add: image_render_def image_options_def str_int_def str_nat_small)

text \<open>
  C10. An attribute among title, width, height and align whose value is false in a
  condition (\<^verbatim>\<open>None\<close>, the number 0, the empty string, \<^verbatim>\<open>False\<close>) is left out of the
  attribute list: the image renders as it does with that attribute unset, and with all
  four unset no attribute block is written.
\<close>

theorem image_falsy_absent:
  "(\<not> truthy title \<longrightarrow>
      render (Image src alt title width height align) = render (Image src alt PNone width height align))
   \<and> (\<not> truthy width \<longrightarrow>
      render (Image src alt title width height align) = render (Image src alt title PNone height align))
   \<and> (\<not> truthy height \<longrightarrow>
      render (Image src alt title width height align) = render (Image src alt title width PNone align))
   \<and> (\<not> truthy align \<longrightarrow>
      render (Image src alt title width height align) = render (Image src alt title width height PNone))
   \<and> render (Image src alt PNone PNone PNone PNone) =
       Inr (PStr (''image::'' @ py_str src @ ''['' @ py_str alt @ '']''))
   \<and> \<not> truthy (PInt 0) \<and> \<not> truthy (PStr '''') \<and> \<not> truthy (PBool False) \<and> \<not> truthy PNone"
  by (simp add: image_render_def image_options_def)

theorem image_falsy_absent_witness:
  "render (Image (PStr ''s'') (PStr ''a'') (PStr '''') (PInt 0) PNone PNone)
     = Inr (PStr ''image::s[a]'')
   \<and> render (Image (PStr ''s'') (PStr ''a'') (PStr '''') (PInt 0) (PInt 3) (PBool False))
     = Inr (PStr ''image::s[a, height=3]'')"
proof -
  have "render (Image (PStr ''s'') (PStr ''a'') (PStr '''') (PInt 0) PNone PNone)
      = render (Image (PStr ''s'') (PStr ''a'') PNone PNone PNone PNone)"
    using image_falsy_absent [of "PStr ''''" "PStr ''s''" "PStr ''a''" "PInt 0" PNone PNone]
      image_falsy_absent [of PNone "PStr ''s''" "PStr ''a''" "PInt 0" PNone PNone]
    by (simp del: render.simps)
  moreover have "render (Image (PStr ''s'') (PStr ''a'') (PStr '''') (PInt 0) (PInt 3) (PBool False))
      = render (Image (PStr ''s'') (PStr ''a'') PNone PNone (PInt 3) PNone)"
    using image_falsy_absent [of "PStr ''''" "PStr ''s''" "PStr ''a''" "PInt 0" "PInt 3" "PBool False"]
      image_falsy_absent [of PNone "PStr ''s''" "PStr ''a''" "PInt 0" "PInt 3" "PBool False"]
      image_falsy_absent [of PNone "PStr ''s''" "PStr ''a''" PNone "PInt 3" "PBool False"]
    by (simp del: render.simps)
  ultimately show ?thesis
    by (simp add: image_render_def image_options_def str_int_def str_nat_small)
qed

section \<open>Table\<close>

text \<open>
  C2 (as amended). For a table whose header is a non-empty sequence of strings and that has
  exactly one row, \<^verbatim>\<open>Table.render\<close> is the opening marker, the header line, the row line
  and the closing marker, newline-joined. When no header label and no cell text contains
  a line break, that is four lines: two lines lie between the opening and the closing
  \<^verbatim>\<open>|===\<close>, the header line first, then the row.
\<close>

theorem table_header_one_row:
  assumes "hs \<noteq> []"
  shows "render (Table (map PStr hs) [row]) =
           Inr (PStr (''|==='' @ nl @ ''| '' @ join_str '' | '' hs @ nl
                      @ ''| '' @ join_str '' | '' (map py_str row) @ nl @ ''|===''))
         \<and> (list_all one_line hs \<and> list_all (\<lambda>cell. one_line (py_str cell)) row \<longrightarrow>
              render_lines (Table (map PStr hs) [row]) =
                [''|==='', ''| '' @ join_str '' | '' hs,
                 ''| '' @ join_str '' | '' (map py_str row), ''|==='']
              \<and> length (butlast (tl (render_lines (Table (map PStr hs) [row])))) = 2)"
proof -
  let ?h = "''| '' @ join_str '' | '' hs"
  let ?r = "''| '' @ join_str '' | '' (map py_str row)"
  have r: "render (Table (map PStr hs) [row]) = Inr (PStr (join_str nl [''|==='', ?h, ?r, ''|==='']))"
    using assms by (simp add: table_render_texts table_body_def del: render.simps)
  have l: "render_lines (Table (map PStr hs) [row]) = [''|==='', ?h, ?r, ''|==='']"
    if hs: "list_all one_line hs" and row: "list_all (\<lambda>cell. one_line (py_str cell)) row"
  proof -
    have "one_line ?h"
      using hs by (simp add: one_line_simps one_line_join)
    moreover have "one_line ?r"
      using row by (simp add: one_line_simps one_line_join list_all_iff)
    ultimately have "text_lines (join_str nl [''|==='', ?h, ?r, ''|==='']) = [''|==='', ?h, ?r, ''|==='']"
      by (intro text_lines_join) (simp_all add: one_line_simps)
    with r show ?thesis by (simp add: render_lines_def)
  qed
  have "render (Table (map PStr hs) [row]) =
      Inr (PStr (''|==='' @ nl @ ''| '' @ join_str '' | '' hs @ nl
                 @ ''| '' @ join_str '' | '' (map py_str row) @ nl @ ''|===''))"
    using r by simp
  moreover have "length (butlast (tl (render_lines (Table (map PStr hs) [row])))) = 2"
    if "list_all one_line hs" and "list_all (\<lambda>cell. one_line (py_str cell)) row"
    using l [OF that] by simp
  ultimately show ?thesis using l by blast
qed

theorem table_header_one_row_witness:
  "render (Table (map PStr [''h1'', ''h2'']) [[PStr ''c'', PNone]])
     = Inr (PStr ''|===\<newline>| h1 | h2\<newline>| c | None\<newline>|==='')
   \<and> render_lines (Table (map PStr [''h1'', ''h2'']) [[PStr ''c'', PNone]])
     = [''|==='', ''| h1 | h2'', ''| c | None'', ''|==='']
   \<and> render (Table (map PStr [''a\<newline>b'']) [[]])
     = Inr (PStr ''|===\<newline>| a\<newline>b\<newline>| \<newline>|==='')"
  using table_header_one_row [of "[''h1'', ''h2'']" "[PStr ''c'', PNone]"]
    table_header_one_row [of "[''a\<newline>b'']" "[]"]
  by (simp add: one_line_def)

text \<open>
  With the header \<^verbatim>\<open>h\<close> and the single row \<^verbatim>\<open>c\<close>, two lines lie between the markers, not
  three.
\<close>

theorem table_three_lines_counterexample:
  "render_lines (Table [PStr ''h''] [[PStr ''c'']]) = [''|==='', ''| h'', ''| c'', ''|==='']
   \<and> length (butlast (tl (render_lines (Table [PStr ''h''] [[PStr ''c'']])))) \<noteq> 3"
  by (simp add: render_lines_def table_header_part_def py_join_def table_body_def text_lines_def)

text \<open>
  C5. The table with an empty header and no rows renders exactly as \<^verbatim>\<open>|===\<close>, an empty
  line and \<^verbatim>\<open>|===\<close>. With no rows the body is empty whatever the header is: after the
  opening marker (and the header line, when there is a header) come the empty body, a line
  break and the closing marker.
\<close>

theorem table_no_rows:
  "render (Table [] []) = Inr (PStr ''|===\<newline>\<newline>|==='')
   \<and> table_body [] = []
   \<and> render (Table (map PStr (h # hs)) []) =
       Inr (PStr (''|==='' @ nl @ ''| '' @ join_str '' | '' (h # hs) @ nl @ [] @ nl @ ''|===''))"
  by (simp add: table_header_part_def table_body_def py_join_PStr [of _ "h # hs", simplified])

section \<open>Lists\<close>

text \<open>
  C3 (as amended). \<^verbatim>\<open>UnorderedList.render\<close> and \<^verbatim>\<open>OrderedList.render\<close> join with line
  breaks, in input order and with no line break at the end, one entry per item: the text
  of the item after the prefix \<^verbatim>\<open>* \<close> (unordered) or \<^verbatim>\<open>. \<close> (ordered). When no item's text
  contains a line break, the lines of the result are exactly these entries, so a list of
  k items renders to k lines, each beginning with the prefix.
\<close>

theorem list_render_lines:
  "render (UnorderedList items) = Inr (PStr (join_str nl (map (\<lambda>item. ''* '' @ py_str item) items)))
   \<and> render (OrderedList items) = Inr (PStr (join_str nl (map (\<lambda>item. ''. '' @ py_str item) items)))
   \<and> (list_all (\<lambda>item. one_line (py_str item)) items \<longrightarrow>
        render_lines (UnorderedList items) = map (\<lambda>item. ''* '' @ py_str item) items
        \<and> render_lines (OrderedList items) = map (\<lambda>item. ''. '' @ py_str item) items
        \<and> length (render_lines (UnorderedList items)) = length items
        \<and> length (render_lines (OrderedList items)) = length items)"
proof -
  have "text_lines (join_str nl (map (\<lambda>item. p @ py_str item) items)) = map (\<lambda>item. p @ py_str item) items"
    if "list_all (\<lambda>item. one_line (py_str item)) items" and "one_line p" and "p \<noteq> []" for p
    using that by (intro text_lines_join) (simp_all add: list_all_iff one_line_simps)
  from this [of "''* ''"] this [of "''. ''"] show ?thesis
    by (simp add: render_lines_def one_line_simps)
qed

theorem list_render_lines_witness:
  "list_all (\<lambda>item. one_line (py_str item)) [PStr ''a'', PNone]
   \<and> render_lines (UnorderedList [PStr ''a'', PNone]) = [''* a'', ''* None'']
   \<and> render_lines (OrderedList [PStr ''a'', PNone]) = [''. a'', ''. None'']"
  using list_render_lines [of "[PStr ''a'', PNone]"]
  by (simp add: one_line_def)

text \<open>
  An item whose text holds a line break spreads over two lines: one item, two lines, the
  second without the prefix.
\<close>

theorem list_line_count_counterexample:
  "render (UnorderedList [PStr ''a\<newline>b'']) = Inr (PStr ''* a\<newline>b'')
   \<and> render_lines (UnorderedList [PStr ''a\<newline>b'']) = [''* a'', ''b'']
   \<and> length (render_lines (UnorderedList [PStr ''a\<newline>b''])) \<noteq> length [PStr ''a\<newline>b'']"
  by (simp add: render_lines_def text_lines_def)

section \<open>Blockquote\<close>

text \<open>
  C4. When neither author nor source is present, \<^verbatim>\<open>Blockquote.render\<close> is the text between
  two lines \<^verbatim>\<open>____\<close>. When either is present, the line
  \<^verbatim>\<open>[quote, <author>, <source>]\<close>, with both slots written even if only one of the two is
  present, comes first, joined to the block by a line break. Present means true in a
  condition: for \<^verbatim>\<open>None\<close> and strings, neither \<^verbatim>\<open>None\<close> nor empty.
\<close>

theorem blockquote_render_cases:
  "(\<not> truthy author \<and> \<not> truthy source \<longrightarrow>
      render (Blockquote text author source) =
        Inr (PStr (''____'' @ nl @ py_str text @ nl @ ''____'')))
   \<and> (truthy author \<or> truthy source \<longrightarrow>
      render (Blockquote text author source) =
        Inr (PStr (''[quote, '' @ py_str author @ '', '' @ py_str source @ '']'' @ nl
                   @ ''____'' @ nl @ py_str text @ nl @ ''____'')))
   \<and> \<not> truthy PNone \<and> (truthy (PStr s) \<longleftrightarrow> s \<noteq> [])"
  by (simp add: blockquote_render_def)

theorem blockquote_render_cases_witness:
  "render (Blockquote (PStr ''q'') PNone (PStr '''')) = Inr (PStr ''____\<newline>q\<newline>____'')
   \<and> render (Blockquote (PStr ''q'') (PStr ''me'') (PStr ''book''))
       = Inr (PStr ''[quote, me, book]\<newline>____\<newline>q\<newline>____'')
   \<and> render (Blockquote (PStr ''q'') (PStr ''me'') PNone)
       = Inr (PStr ''[quote, me, None]\<newline>____\<newline>q\<newline>____'')
   \<and> render (Blockquote (PStr ''q'') (PStr '''') (PStr ''book''))
       = Inr (PStr ''[quote, , book]\<newline>____\<newline>q\<newline>____'')"
  using blockquote_render_cases [of PNone "PStr ''''" "PStr ''q''"]
    blockquote_render_cases [of "PStr ''me''" "PStr ''book''" "PStr ''q''"]
    blockquote_render_cases [of "PStr ''me''" PNone "PStr ''q''"]
    blockquote_render_cases [of "PStr ''''" "PStr ''book''" "PStr ''q''"]
  by simp

section \<open>Section\<close>

text \<open>
  C6 (as amended). For a section whose level n is at least 1 and inside the index range
  of string repetition (at most \<open>2\<^sup>6\<^sup>3 - 1\<close>), and whose children render to texts,
  \<^verbatim>\<open>Section.render\<close> starts with n characters \<^verbatim>\<open>=\<close>, then a single space and the title;
  the text of every child follows in order, each after a line break. That is the newline
  join of the heading line and the children's texts.
\<close>

theorem section_render_heading:
  assumes "1 \<le> n" and "n \<le> index_max"
    and "list_all2 (\<lambda>child t. render child = Inr (PStr t)) content texts"
  shows "render (Section title (PInt n) content) =
           Inr (PStr ((replicate (nat n) (CHR ''='') @ '' '' @ py_str title)
                      @ concat (map (\<lambda>t. nl @ t) texts)))
         \<and> render (Section title (PInt n) content) =
           Inr (PStr (join_str nl ((replicate (nat n) (CHR ''='') @ '' '' @ py_str title) # texts)))
         \<and> length (replicate (nat n) (CHR ''='')) = nat n \<and> int (nat n) = n"
proof -
  let ?heading = "replicate (nat n) (CHR ''='') @ '' '' @ py_str title"
  have "py_repeat ''='' (PInt n) = Inr (replicate (nat n) (CHR ''=''))"
    using assms(1,2) by (simp add: index_min_def concat_replicate_single)
  moreover have "render_items content = Inr (map PStr texts)"
    using assms(3) by (rule render_items_texts)
  ultimately have r: "render (Section title (PInt n) content) = Inr (PStr (join_str nl (?heading # texts)))"
    using py_join_PStr [of nl "?heading # texts"]
    by (simp del: join_str.simps py_repeat.simps)
  then have "render (Section title (PInt n) content) =
      Inr (PStr (?heading @ concat (map (\<lambda>t. nl @ t) texts)))"
    by (simp only: join_str_Cons)
  moreover have "int (nat n) = n" using assms(1) by simp
  ultimately show ?thesis using r by (intro conjI) simp_all
qed

theorem section_render_heading_witness:
  "(1::int) \<le> 2 \<and> 2 \<le> index_max
   \<and> list_all2 (\<lambda>child t. render child = Inr (PStr t))
        [Paragraph (PStr ''p''), HorizontalLine] [''p'', ''----'']
   \<and> render (Section (PStr ''T'') (PInt 2) [Paragraph (PStr ''p''), HorizontalLine])
       = Inr (PStr ''== T\<newline>p\<newline>----'')"
proof -
  have a: "(1::int) \<le> 2" by simp
  have b: "2 \<le> index_max" by (simp add: index_max_def)
  have c: "list_all2 (\<lambda>child t. render child = Inr (PStr t))
        [Paragraph (PStr ''p''), HorizontalLine] [''p'', ''----'']" by simp
  have "replicate (nat 2) (CHR ''='') = ''==''" by (simp add: numeral_2_eq_2)
  with section_render_heading [OF a b c, of "PStr ''T''"] a b c show ?thesis
    by (simp del: render.simps)
qed

text \<open>
  A level of \<open>2\<^sup>6\<^sup>3\<close> is at least 1, but the repetition raises \<^verbatim>\<open>OverflowError\<close> and
  the section has no rendered text.
\<close>

theorem section_level_overflow_counterexample:
  "(1::int) \<le> 2 ^ 63
   \<and> render (Section (PStr ''T'') (PInt (2 ^ 63)) []) = Inl OverflowError"
  by (simp add: index_min_def index_max_def)

section \<open>Reference\<close>

text \<open>
  C7. \<^verbatim>\<open>Reference.render\<close> returns the single line
  \<^verbatim>\<open>- [[[<key>]]] <authors>. <title>. <publisher>. <year>.\<close> with the text of every
  field inserted as it is; for key \<^verbatim>\<open>ref1\<close>, authors \<^verbatim>\<open>Doe, J\<close>, title \<^verbatim>\<open>A Study\<close>,
  publisher \<^verbatim>\<open>ACM\<close> and year 2020 (given as the text or as the number) the result is
  \<^verbatim>\<open>- [[[ref1]]] Doe, J. A Study. ACM. 2020.\<close>.
\<close>

theorem reference_render:
  "render (Reference key authors title publisher year) =
     Inr (PStr (concat [''- [[['', py_str key, '']]] '', py_str authors, ''. '', py_str title,
                        ''. '', py_str publisher, ''. '', py_str year, ''.'']))
   \<and> render (Reference (PStr ''ref1'') (PStr ''Doe, J'') (PStr ''A Study'') (PStr ''ACM'')
         (PStr ''2020'')) = Inr (PStr ''- [[[ref1]]] Doe, J. A Study. ACM. 2020.'')
   \<and> render (Reference (PStr ''ref1'') (PStr ''Doe, J'') (PStr ''A Study'') (PStr ''ACM'')
         (PInt 2020)) = Inr (PStr ''- [[[ref1]]] Doe, J. A Study. ACM. 2020.'')"
  by (simp add: str_int_def str_nat_2020)

section \<open>Document\<close>

text \<open>
  C8. \<^verbatim>\<open>add_section(title)\<close> without a level makes a section of level 1 with no
  children, appends it to the document's content and returns it. \<^verbatim>\<open>Document.render\<close> is
  the newline join of the texts of the children in insertion order, with nothing before or
  after. So a section added to an empty document this way, followed by a paragraph,
  renders as the section's text, a line break and the paragraph's text.
\<close>

theorem document_add_section_render:
  "add_section content title None = (Section title (PInt 1) [], content @ [Section title (PInt 1) []])
   \<and> (list_all2 (\<lambda>child t. render child = Inr (PStr t)) content texts \<longrightarrow>
        render (Document content) = Inr (PStr (join_str nl texts)))
   \<and> render (fst (add_section [] title None)) = Inr (PStr (''= '' @ py_str title))
   \<and> render (Paragraph (PStr p)) = Inr (PStr p)
   \<and> render (Document (snd (add_section [] title None) @ [Paragraph (PStr p)])) =
       Inr (PStr ((''= '' @ py_str title) @ nl @ p))"
proof -
  have "render (Document content) = Inr (PStr (join_str nl texts))"
    if "list_all2 (\<lambda>child t. render child = Inr (PStr t)) content texts"
    using render_items_texts [OF that] by (simp add: py_join_PStr)
  then show ?thesis
    by (simp add: add_section_def py_join_def Let_def index_min_def index_max_def)
qed

theorem document_add_section_render_witness:
  "list_all2 (\<lambda>child t. render child = Inr (PStr t))
      [Section (PStr ''T'') (PInt 1) [Paragraph (PStr ''x'')], Paragraph (PStr ''y'')] [''= T\<newline>x'', ''y'']
   \<and> render (Document [Section (PStr ''T'') (PInt 1) [Paragraph (PStr ''x'')], Paragraph (PStr ''y'')])
       = Inr (PStr ''= T\<newline>x\<newline>y'')
   \<and> render (Document (snd (add_section [] (PStr ''T'') None) @ [Paragraph (PStr ''y'')]))
       = Inr (PStr ''= T\<newline>y'')"
proof -
  have a: "list_all2 (\<lambda>child t. render child = Inr (PStr t))
      [Section (PStr ''T'') (PInt 1) [Paragraph (PStr ''x'')], Paragraph (PStr ''y'')] [''= T\<newline>x'', ''y'']"
    by (simp add: py_join_def index_min_def index_max_def)
  from document_add_section_render
    [of "[Section (PStr ''T'') (PInt 1) [Paragraph (PStr ''x'')], Paragraph (PStr ''y'')]"
        "PStr ''T''" "[''= T\<newline>x'', ''y'']" "''y''"] a
  show ?thesis by (simp del: render.simps)
qed

section \<open>Rendering succeeds on well-typed trees\<close>




end
